theory Spec2Isabelle
  imports Complex_Main
begin

section \<open>Tensors, data splits and saved files\<close>

text \<open>
  A torch tensor is its element type, its shape and its entries in row-major order.
  The entries are real numbers: every value of \<^verbatim>\<open>torch.float32\<close> is also a value of
  \<^verbatim>\<open>torch.double\<close>, so widening a tensor keeps its entries and changes the element type.
\<close>

datatype dtype = Float32 | Float64

record tensor =
  dtype :: dtype
  shape :: "nat list"
  entries :: "real list"

datatype error =
  FileNotFoundError | KeyError | IndexError | AttributeError | TypeError
  | RuntimeError | ConfigurationError

text \<open>
  \<^verbatim>\<open>t.to(torch.double)\<close> returns a tensor; the receiver \<^verbatim>\<open>t\<close> is not changed. A caller
  that does not bind the result keeps the tensor it had.
\<close>

definition to_double :: "tensor \<Rightarrow> tensor" where
  "to_double t = t\<lparr>dtype := Float64\<rparr>"

text \<open>\<^verbatim>\<open>t.shape[i]\<close>: an index past the last dimension raises IndexError.\<close>

definition shape_at :: "tensor \<Rightarrow> nat \<Rightarrow> error + nat" where
  "shape_at t i = (if i < length (shape t) then Inr (shape t ! i) else Inl IndexError)"

text \<open>
  \<^verbatim>\<open>experiments.data.Data\<close> and \<^verbatim>\<open>ExperimentData\<close> (section 3 of the specification):
  inputs, optional targets and a name; four splits and the normalisation statistics.
\<close>

record data =
  data_x :: tensor
  data_y :: "tensor option"
  data_name :: string

record experiment_data =
  ed_name :: string
  full :: data
  train :: data
  test :: data
  validation :: data
  y_mean :: real
  y_std :: real

text \<open>
  What \<^verbatim>\<open>torch.save\<close> writes and \<^verbatim>\<open>torch.load\<close> reads back: a tensor, a number, a
  \<^verbatim>\<open>Data\<close> object, or a dictionary with string keys (a checkpoint bundle, a state
  dictionary). The file system is a map from paths to saved objects.
\<close>

datatype pyobj =
  Tensor tensor
  | Number real
  | DataObj data
  | Dict "(string \<times> pyobj) list"

type_synonym files = "string \<rightharpoonup> pyobj"

definition torch_load :: "files \<Rightarrow> string \<Rightarrow> error + pyobj" where
  "torch_load fs path = (case fs path of None \<Rightarrow> Inl FileNotFoundError | Some v \<Rightarrow> Inr v)"

definition torch_save :: "pyobj \<Rightarrow> string \<Rightarrow> files \<Rightarrow> files" where
  "torch_save v path fs = fs(path \<mapsto> v)"

text \<open>\<^verbatim>\<open>os.path.exists(path)\<close>.\<close>

definition path_exists :: "files \<Rightarrow> string \<Rightarrow> bool" where
  "path_exists fs path = (fs path \<noteq> None)"

text \<open>\<^verbatim>\<open>d[key]\<close> on a loaded object: KeyError for a missing key.\<close>

definition getitem :: "pyobj \<Rightarrow> string \<Rightarrow> error + pyobj" where
  "getitem d key =
     (case d of
        Dict kvs \<Rightarrow> (case map_of kvs key of None \<Rightarrow> Inl KeyError | Some v \<Rightarrow> Inr v)
      | _ \<Rightarrow> Inl TypeError)"

section \<open>The kernel wrapper and the flow object\<close>

text \<open>
  Modelled from the spec: the class \<^verbatim>\<open>src.kernels.GradientFlowKernel\<close> is not among the
  sources; only its constructor call in \<^verbatim>\<open>experiments/loaders.py\<close> is. Section 4.1:
  it wraps a base kernel together with a fixed set of approximation samples, and
  constructing it requires a non-empty sample set. The base kernel is an object of any
  type \<open>'k\<close>.
\<close>

record 'k GradientFlowKernel =
  base_kernel :: 'k
  approximation_samples :: tensor

definition number_of_rows :: "tensor \<Rightarrow> nat" where
  "number_of_rows t = (case shape t of [] \<Rightarrow> 0 | n # _ \<Rightarrow> n)"

definition GradientFlowKernel_init :: "'k \<Rightarrow> tensor \<Rightarrow> error + 'k GradientFlowKernel" where
  "GradientFlowKernel_init k samples =
     (if number_of_rows samples = 0 then Inl ConfigurationError
      else Inr \<lparr>base_kernel = k, approximation_samples = samples\<rparr>)"

text \<open>
  Modelled from the spec: the class \<^verbatim>\<open>src.gradient_flows.ProjectedWassersteinGradientFlow\<close>
  is not among the sources. Its state is the one section 4.3 lists, under the names of
  the constructor's keyword arguments in \<^verbatim>\<open>experiments/loaders.py\<close>; the attributes
  \<^verbatim>\<open>particles\<close> and \<^verbatim>\<open>observation_noise\<close> are the ones the experiment scripts read and
  assign. The constructor draws the initial particles from the random generator: the
  drawn matrix is the parameter \<open>initial_particles\<close>.
\<close>

record 'k pwgf =
  number_of_particles :: nat
  kernel :: "'k GradientFlowKernel"
  x_induce :: tensor
  y_induce :: "tensor option"
  x_train :: tensor
  y_train :: "tensor option"
  jitter :: real
  observation_noise :: real
  particles :: tensor

definition ProjectedWassersteinGradientFlow ::
  "tensor \<Rightarrow> nat \<Rightarrow> 'k GradientFlowKernel \<Rightarrow> tensor \<Rightarrow> tensor option \<Rightarrow> tensor
     \<Rightarrow> tensor option \<Rightarrow> real \<Rightarrow> real \<Rightarrow> 'k pwgf"
where
  "ProjectedWassersteinGradientFlow initial_particles n k xi yi xt yt j noise =
     \<lparr>number_of_particles = n, kernel = k, x_induce = xi, y_induce = yi,
      x_train = xt, y_train = yt, jitter = j, observation_noise = noise,
      particles = initial_particles\<rparr>"

section \<open>experiments/loaders.py\<close>

text \<open>
  \<^verbatim>\<open>load_projected_wasserstein_gradient_flow\<close>: the particles come from the file,
  widened to double; the observation noise is the caller's argument. The key
  \<^verbatim>\<open>"observation_noise"\<close> of the loaded dictionary is never read.
\<close>

definition load_projected_wasserstein_gradient_flow ::
  "files \<Rightarrow> tensor \<Rightarrow> string \<Rightarrow> 'k \<Rightarrow> real \<Rightarrow> experiment_data \<Rightarrow> data \<Rightarrow> real
     \<Rightarrow> error + 'k pwgf"
where
  "load_projected_wasserstein_gradient_flow fs initial_particles model_path base_k noise
       exp_data induce jit =
     (case torch_load fs model_path of
        Inl e \<Rightarrow> Inl e
      | Inr model_config \<Rightarrow>
          (case getitem model_config ''particles'' of
             Inl e \<Rightarrow> Inl e
           | Inr (Tensor t) \<Rightarrow>
               (let ps = to_double t in
                case shape_at ps 1 of
                  Inl e \<Rightarrow> Inl e
                | Inr n \<Rightarrow>
                    (case GradientFlowKernel_init base_k (data_x (train exp_data)) of
                       Inl e \<Rightarrow> Inl e
                     | Inr k \<Rightarrow>
                         Inr ((ProjectedWassersteinGradientFlow initial_particles n k
                                 (data_x induce) (data_y induce)
                                 (data_x (train exp_data)) (data_y (train exp_data))
                                 jit noise)
                              \<lparr>particles := ps\<rparr>)))
           | Inr _ \<Rightarrow> Inl AttributeError))"

text \<open>
  Modelled from the spec: the classes \<^verbatim>\<open>src.gps.ExactGP\<close> and \<^verbatim>\<open>src.gps.svGP\<close> are not
  among the sources. Each is a torch module: it keeps its constructor arguments and the
  named parameters and buffers of its likelihood, mean and kernel (its
  \<^verbatim>\<open>state_dict()\<close>). The parameters of freshly constructed modules are the parameter
  \<open>initial_state\<close>. \<^verbatim>\<open>load_state_dict\<close> is torch's: it is the parameter
  \<open>load_state_dict\<close>, from the current state and the loaded object to the new state or
  an error; it assigns parameters and buffers only.
\<close>

type_synonym state_dict = "(string \<times> tensor) list"

datatype mean = ConstantMean

datatype likelihood = GaussianLikelihood

datatype ard_kernel = RBFKernel nat | ScaleKernel ard_kernel

record 'k ExactGP =
  gp_x :: tensor
  gp_y :: tensor
  gp_likelihood :: likelihood
  gp_mean :: mean
  gp_kernel :: 'k
  gp_state :: state_dict

record 'k svGP =
  svgp_x_induce :: tensor
  svgp_mean :: mean
  svgp_kernel :: 'k
  svgp_learn_inducing_locations :: bool
  svgp_likelihood :: likelihood
  svgp_state :: state_dict

text \<open>
  \<^verbatim>\<open>model.double()\<close> on a module works in place: every parameter and buffer of the
  module becomes a double tensor.
\<close>

definition svGP_double :: "'k svGP \<Rightarrow> 'k svGP" where
  "svGP_double m =
     m\<lparr>svgp_x_induce := to_double (svgp_x_induce m),
       svgp_state := map (\<lambda>(n, t). (n, to_double t)) (svgp_state m)\<rparr>"

definition load_svgp ::
  "files \<Rightarrow> state_dict \<Rightarrow> (state_dict \<Rightarrow> pyobj \<Rightarrow> error + state_dict) \<Rightarrow> string \<Rightarrow> tensor
     \<Rightarrow> mean \<Rightarrow> 'k \<Rightarrow> bool \<Rightarrow> error + ('k svGP \<times> pyobj)"
where
  "load_svgp fs initial_state load_state_dict model_path x_ind mn k learn =
     (let model = \<lparr>svgp_x_induce = to_double x_ind, svgp_mean = mn, svgp_kernel = k,
                   svgp_learn_inducing_locations = learn,
                   svgp_likelihood = GaussianLikelihood, svgp_state = initial_state\<rparr>
      in case torch_load fs model_path of
           Inl e \<Rightarrow> Inl e
         | Inr loaded_states \<Rightarrow>
             (case getitem loaded_states ''model'' of
                Inl e \<Rightarrow> Inl e
              | Inr sd \<Rightarrow>
                  (case load_state_dict (svgp_state model) sd of
                     Inl e \<Rightarrow> Inl e
                   | Inr st \<Rightarrow>
                       (let model = svGP_double (model\<lparr>svgp_state := st\<rparr>)
                        in case getitem loaded_states ''losses'' of
                             Inl e \<Rightarrow> Inl e
                           | Inr losses \<Rightarrow> Inr (model, losses)))))"

text \<open>
  \<^verbatim>\<open>load_ard_exact_gp_model\<close>. The two statements \<^verbatim>\<open>data.x.to(torch.double)\<close> and
  \<^verbatim>\<open>data.y.to(torch.double)\<close> are evaluated (so a \<^verbatim>\<open>Data\<close> without targets raises
  AttributeError) and their results are dropped; the model is built from \<^verbatim>\<open>data.x\<close>
  and \<^verbatim>\<open>data.y\<close> as loaded.
\<close>

definition load_ard_exact_gp_model ::
  "files \<Rightarrow> state_dict \<Rightarrow> (state_dict \<Rightarrow> pyobj \<Rightarrow> error + state_dict) \<Rightarrow> string \<Rightarrow> string
     \<Rightarrow> error + (ard_kernel ExactGP \<times> pyobj)"
where
  "load_ard_exact_gp_model fs initial_state load_state_dict model_path data_path =
     (case torch_load fs data_path of
        Inl e \<Rightarrow> Inl e
      | Inr (DataObj d) \<Rightarrow>
          (let dropped_x = to_double (data_x d) in
           case data_y d of
             None \<Rightarrow> Inl AttributeError
           | Some y \<Rightarrow>
               (let dropped_y = to_double y in
                case torch_load fs model_path of
                  Inl e \<Rightarrow> Inl e
                | Inr model_state_dict \<Rightarrow>
                    (case shape_at (data_x d) 1 of
                       Inl e \<Rightarrow> Inl e
                     | Inr dims \<Rightarrow>
                         (let model = \<lparr>gp_x = data_x d, gp_y = y,
                                       gp_likelihood = GaussianLikelihood,
                                       gp_mean = ConstantMean,
                                       gp_kernel = ScaleKernel (RBFKernel dims),
                                       gp_state = initial_state\<rparr>
                          in case getitem model_state_dict ''model'' of
                               Inl e \<Rightarrow> Inl e
                             | Inr sd \<Rightarrow>
                                 (case load_state_dict (gp_state model) sd of
                                    Inl e \<Rightarrow> Inl e
                                  | Inr st \<Rightarrow>
                                      (case getitem model_state_dict ''losses'' of
                                         Inl e \<Rightarrow> Inl e
                                       | Inr losses \<Rightarrow>
                                           Inr (model\<lparr>gp_state := st\<rparr>, losses)))))))
      | Inr _ \<Rightarrow> Inl AttributeError)"

section \<open>experiments/uci/main.py: the two flow stages\<close>

text \<open>
  The configuration dictionaries are records with one field for each key the scripts
  read. The runners of \<^verbatim>\<open>experiments.runners\<close> are not among the sources: each is a
  parameter, a function from the record of its keyword arguments to what it returns.
  The plotting arguments are left out.
\<close>

record pwgf_config =
  cfg_number_of_particles :: nat
  cfg_number_of_epochs :: nat
  cfg_learning_rate_upper :: real
  cfg_learning_rate_lower :: real
  cfg_number_of_learning_rate_searches :: nat
  cfg_max_particle_magnitude :: real
  cfg_jitter :: real
  cfg_seed :: nat
  cfg_observation_noise_upper :: real
  cfg_observation_noise_lower :: real
  cfg_number_of_observation_noise_searches :: nat

record 'k pwgf_call =
  arg_particle_name :: string
  arg_kernel :: 'k
  arg_experiment_data :: experiment_data
  arg_induce_data :: data
  arg_number_of_particles :: nat
  arg_number_of_epochs :: nat
  arg_learning_rate_upper :: real
  arg_learning_rate_lower :: real
  arg_number_of_learning_rate_searches :: nat
  arg_max_particle_magnitude :: real
  arg_observation_noise :: real
  arg_jitter :: real
  arg_seed :: nat

record 'k noise_search_call =
  ns_data :: data
  ns_model :: "'k pwgf"
  ns_observation_noise_upper :: real
  ns_observation_noise_lower :: real
  ns_number_of_searches :: nat
  ns_y_std :: real

text \<open>
  What the scripts read from a trained sparse model: \<^verbatim>\<open>svgp_model.kernel\<close>,
  \<^verbatim>\<open>svgp_model.likelihood.noise\<close> and
  \<^verbatim>\<open>svgp_model.variational_strategy.inducing_points\<close>.
\<close>

record 'k fitted_svgp =
  fitted_kernel :: 'k
  fitted_likelihood_noise :: real
  fitted_inducing_points :: tensor

definition pwgf_call_of ::
  "string \<Rightarrow> 'k \<Rightarrow> experiment_data \<Rightarrow> data \<Rightarrow> pwgf_config \<Rightarrow> real \<Rightarrow> 'k pwgf_call"
where
  "pwgf_call_of nm k exp_data induce cfg noise =
     \<lparr>arg_particle_name = nm, arg_kernel = k, arg_experiment_data = exp_data,
      arg_induce_data = induce,
      arg_number_of_particles = cfg_number_of_particles cfg,
      arg_number_of_epochs = cfg_number_of_epochs cfg,
      arg_learning_rate_upper = cfg_learning_rate_upper cfg,
      arg_learning_rate_lower = cfg_learning_rate_lower cfg,
      arg_number_of_learning_rate_searches = cfg_number_of_learning_rate_searches cfg,
      arg_max_particle_magnitude = cfg_max_particle_magnitude cfg,
      arg_observation_noise = noise,
      arg_jitter = cfg_jitter cfg,
      arg_seed = cfg_seed cfg\<rparr>"

text \<open>The dictionary both stages hand to \<^verbatim>\<open>torch.save\<close>.\<close>

definition pwgf_bundle :: "'k pwgf \<Rightarrow> pyobj" where
  "pwgf_bundle m =
     Dict [(''particles'', Tensor (particles m)),
           (''observation_noise'', Number (observation_noise m))]"

text \<open>
  Lines 169 to 213 of \<^verbatim>\<open>main\<close>: if the checkpoint exists the flow is loaded with
  \<^verbatim>\<open>float(likelihood.noise)\<close> as its observation noise; otherwise it is trained with
  that noise, its observation noise is replaced by the result of the noise search, and
  particles and observation noise are saved. The stage returns the flow and the files.
\<close>

definition uci_pwgf_stage ::
  "('k pwgf_call \<Rightarrow> 'k pwgf) \<Rightarrow> ('k noise_search_call \<Rightarrow> real) \<Rightarrow> tensor \<Rightarrow> files \<Rightarrow> string
     \<Rightarrow> 'k \<Rightarrow> real \<Rightarrow> experiment_data \<Rightarrow> data \<Rightarrow> pwgf_config \<Rightarrow> error + ('k pwgf \<times> files)"
where
  "uci_pwgf_stage train_projected_wasserstein_gradient_flow pwgf_observation_noise_search
       initial_particles fs pwgf_path average_ard_kernel likelihood_noise exp_data induce cfg =
     (if path_exists fs pwgf_path then
        (case load_projected_wasserstein_gradient_flow fs initial_particles pwgf_path
                average_ard_kernel likelihood_noise exp_data induce (cfg_jitter cfg) of
           Inl e \<Rightarrow> Inl e
         | Inr m \<Rightarrow> Inr (m, fs))
      else
        (let m = train_projected_wasserstein_gradient_flow
                   (pwgf_call_of ''average-kernel'' average_ard_kernel exp_data induce cfg
                      likelihood_noise);
             m = m\<lparr>observation_noise :=
                    pwgf_observation_noise_search
                      \<lparr>ns_data = train exp_data, ns_model = m,
                       ns_observation_noise_upper = cfg_observation_noise_upper cfg,
                       ns_observation_noise_lower = cfg_observation_noise_lower cfg,
                       ns_number_of_searches = cfg_number_of_observation_noise_searches cfg,
                       ns_y_std = y_std exp_data\<rparr>\<rparr>
         in Inr (m, torch_save (pwgf_bundle m) pwgf_path fs)))"

text \<open>
  Lines 321 to 363: the flow seeded by the trained svGP. Both branches pass
  \<^verbatim>\<open>svgp_model.likelihood.noise\<close>; there is no noise search here. \<^verbatim>\<open>Data(x=..., y=None)\<close>
  leaves the name at its default, written as the empty string.
\<close>

definition uci_svgp_pwgf_call :: "'k fitted_svgp \<Rightarrow> experiment_data \<Rightarrow> pwgf_config \<Rightarrow> 'k pwgf_call"
where
  "uci_svgp_pwgf_call svgp_model exp_data cfg =
     pwgf_call_of ''svgp'' (fitted_kernel svgp_model) exp_data
       \<lparr>data_x = fitted_inducing_points svgp_model, data_y = None, data_name = []\<rparr>
       cfg (fitted_likelihood_noise svgp_model)"

definition uci_svgp_pwgf_stage ::
  "('k pwgf_call \<Rightarrow> 'k pwgf) \<Rightarrow> tensor \<Rightarrow> files \<Rightarrow> string \<Rightarrow> 'k fitted_svgp
     \<Rightarrow> experiment_data \<Rightarrow> pwgf_config \<Rightarrow> error + ('k pwgf \<times> files)"
where
  "uci_svgp_pwgf_stage train_projected_wasserstein_gradient_flow initial_particles fs
       svgp_pwgf_path svgp_model exp_data cfg =
     (if path_exists fs svgp_pwgf_path then
        (case load_projected_wasserstein_gradient_flow fs initial_particles svgp_pwgf_path
                (fitted_kernel svgp_model) (fitted_likelihood_noise svgp_model) exp_data
                \<lparr>data_x = fitted_inducing_points svgp_model, data_y = None, data_name = []\<rparr>
                (cfg_jitter cfg) of
           Inl e \<Rightarrow> Inl e
         | Inr m \<Rightarrow> Inr (m, fs))
      else
        (let m = train_projected_wasserstein_gradient_flow
                   (uci_svgp_pwgf_call svgp_model exp_data cfg)
         in Inr (m, torch_save (pwgf_bundle m) svgp_pwgf_path fs)))"

section \<open>experiments/curves/main.py: the two flow runs\<close>

record svgp_config =
  sv_seed :: nat
  sv_number_of_epochs :: nat
  sv_batch_size :: nat
  sv_learning_rate_upper :: real
  sv_learning_rate_lower :: real
  sv_number_of_learning_rate_searches :: nat

record 'k svgp_call =
  tr_experiment_data :: experiment_data
  tr_induce_data :: data
  tr_mean :: mean
  tr_kernel :: 'k
  tr_config :: svgp_config
  tr_is_fixed :: bool

text \<open>
  Lines 133 to 238 of \<^verbatim>\<open>main\<close>, as the pair of argument records of its two calls of
  \<^verbatim>\<open>projected_wasserstein_gradient_flow\<close>. \<open>model_kernel\<close> and \<open>model_noise\<close> are
  \<^verbatim>\<open>model.kernel\<close> and \<^verbatim>\<open>model.likelihood.noise\<close> of the model that
  \<^verbatim>\<open>optimise_kernel_and_induce_data\<close> returned; no call in between is given the model or
  its likelihood, so both reads of \<^verbatim>\<open>model.likelihood.noise\<close> see the same value.
  \<open>scale_rbf_kernel d\<close> is a new \<^verbatim>\<open>ScaleKernel(RBFKernel(ard_num_dims=d))\<close>.
\<close>

definition curves_pwgf_calls ::
  "('k svgp_call \<Rightarrow> 'k fitted_svgp) \<Rightarrow> (nat \<Rightarrow> 'k) \<Rightarrow> 'k \<Rightarrow> real \<Rightarrow> string \<Rightarrow> data
     \<Rightarrow> experiment_data \<Rightarrow> pwgf_config \<Rightarrow> svgp_config
     \<Rightarrow> error + ('k pwgf_call \<times> 'k pwgf_call)"
where
  "curves_pwgf_calls train_svgp scale_rbf_kernel model_kernel model_noise gp_scheme induce
       exp_data cfg svcfg =
     (let first_call = pwgf_call_of ''exact-gp'' model_kernel exp_data induce cfg
                         (if gp_scheme = ''exact'' then model_noise else 1);
          fixed_svgp_model = train_svgp
                         \<lparr>tr_experiment_data = exp_data, tr_induce_data = induce,
                          tr_mean = ConstantMean, tr_kernel = model_kernel,
                          tr_config = svcfg, tr_is_fixed = True\<rparr>
      in case shape_at (data_x (train exp_data)) 1 of
           Inl e \<Rightarrow> Inl e
         | Inr d \<Rightarrow>
             (let svgp_model = train_svgp
                         \<lparr>tr_experiment_data = exp_data, tr_induce_data = induce,
                          tr_mean = ConstantMean, tr_kernel = scale_rbf_kernel d,
                          tr_config = svcfg, tr_is_fixed = False\<rparr>;
                  second_call = pwgf_call_of ''svgp'' (fitted_kernel svgp_model) exp_data
                         \<lparr>data_x = fitted_inducing_points svgp_model, data_y = None,
                          data_name = []\<rparr>
                         cfg (if gp_scheme = ''exact'' then model_noise else 1)
              in Inr (first_call, second_call)))"

section \<open>The projection step of the flow\<close>

text \<open>
  Modelled from the spec: the flow step of \<^verbatim>\<open>ProjectedWassersteinGradientFlow\<close> is not
  among the sources. Section 4.3: each particle moves by the learning rate times its
  velocity, where the velocity is a function of the whole population (the parameter
  \<open>velocity\<close>); then every particle whose norm exceeds \<^verbatim>\<open>max_particle_magnitude\<close> is
  rescaled to that norm, keeping its direction. The population is the list of its
  particles (the columns of the particle matrix), each a vector of reals.
\<close>

definition norm2 :: "real list \<Rightarrow> real" where
  "norm2 v = sqrt (\<Sum>a\<leftarrow>v. a\<^sup>2)"

definition dot :: "real list \<Rightarrow> real list \<Rightarrow> real" where
  "dot u v = (\<Sum>(a, b)\<leftarrow>zip u v. a * b)"

definition cosine_similarity :: "real list \<Rightarrow> real list \<Rightarrow> real" where
  "cosine_similarity u v = dot u v / (norm2 u * norm2 v)"

definition project_particle :: "real \<Rightarrow> real list \<Rightarrow> real list" where
  "project_particle max_particle_magnitude v =
     (if max_particle_magnitude < norm2 v
      then map (\<lambda>a. a * (max_particle_magnitude / norm2 v)) v
      else v)"

definition move_particles :: "real \<Rightarrow> real list list \<Rightarrow> real list list \<Rightarrow> real list list" where
  "move_particles learning_rate ps vs =
     map (\<lambda>(p, v). map (\<lambda>(a, b). a + learning_rate * b) (zip p v)) (zip ps vs)"

definition flow_step ::
  "(real list list \<Rightarrow> real list list) \<Rightarrow> real \<Rightarrow> real \<Rightarrow> real list list \<Rightarrow> real list list"
where
  "flow_step velocity learning_rate max_particle_magnitude ps =
     map (project_particle max_particle_magnitude)
       (move_particles learning_rate ps (velocity ps))"

section \<open>Example values\<close>

text \<open>
  A small data set with float32 inputs, a two-particle population, a configuration, and
  stand-ins for the runners: a trainer that returns a flow holding \<open>example_particles\<close>
  and a noise search that returns the upper end of its range.
\<close>

definition example_particles :: tensor where
  "example_particles = \<lparr>dtype = Float64, shape = [2, 2], entries = [1, 2, 3, 4]\<rparr>"

definition example_x :: tensor where
  "example_x = \<lparr>dtype = Float32, shape = [2, 1], entries = [0, 1]\<rparr>"

definition example_y :: tensor where
  "example_y = \<lparr>dtype = Float32, shape = [2], entries = [5, 6]\<rparr>"

definition example_data :: data where
  "example_data = \<lparr>data_x = example_x, data_y = Some example_y, data_name = ''train''\<rparr>"

definition example_experiment_data :: experiment_data where
  "example_experiment_data =
     \<lparr>ed_name = ''example'', full = example_data, train = example_data,
      test = example_data, validation = example_data, y_mean = 0, y_std = 1\<rparr>"

definition example_config :: pwgf_config where
  "example_config =
     \<lparr>cfg_number_of_particles = 2, cfg_number_of_epochs = 1,
      cfg_learning_rate_upper = 1, cfg_learning_rate_lower = 0,
      cfg_number_of_learning_rate_searches = 1, cfg_max_particle_magnitude = 10,
      cfg_jitter = 0, cfg_seed = 0, cfg_observation_noise_upper = 2,
      cfg_observation_noise_lower = 2, cfg_number_of_observation_noise_searches = 1\<rparr>"

definition example_svgp_config :: svgp_config where
  "example_svgp_config =
     \<lparr>sv_seed = 0, sv_number_of_epochs = 1, sv_batch_size = 1,
      sv_learning_rate_upper = 1, sv_learning_rate_lower = 0,
      sv_number_of_learning_rate_searches = 1\<rparr>"

definition example_train :: "unit pwgf_call \<Rightarrow> unit pwgf" where
  "example_train c =
     ProjectedWassersteinGradientFlow example_particles (arg_number_of_particles c)
       \<lparr>base_kernel = arg_kernel c,
        approximation_samples = data_x (train (arg_experiment_data c))\<rparr>
       (data_x (arg_induce_data c)) (data_y (arg_induce_data c))
       (data_x (train (arg_experiment_data c))) (data_y (train (arg_experiment_data c)))
       (arg_jitter c) (arg_observation_noise c)"

definition example_noise_search :: "unit noise_search_call \<Rightarrow> real" where
  "example_noise_search c = ns_observation_noise_upper c"

definition example_flow :: "real \<Rightarrow> unit pwgf" where
  "example_flow noise =
     \<lparr>number_of_particles = 2,
      kernel = \<lparr>base_kernel = (), approximation_samples = example_x\<rparr>,
      x_induce = example_x, y_induce = Some example_y,
      x_train = example_x, y_train = Some example_y,
      jitter = 0, observation_noise = noise, particles = example_particles\<rparr>"

definition example_saved :: files where
  "example_saved =
     [''pwgf_model.pth'' \<mapsto>
        Dict [(''particles'', Tensor example_particles), (''observation_noise'', Number 2)]]"

text \<open>
  For the curves script kernels are numbered: the first model's kernel is 5, a new
  \<^verbatim>\<open>ScaleKernel(RBFKernel(ard_num_dims=d))\<close> is \<open>d\<close>, and training an svGP on kernel
  \<open>k\<close> gives kernel \<open>k + 10\<close>, likelihood noise 7 and, when the inducing locations
  are not fixed, learned inducing points that differ from the induce data.
\<close>

definition example_learned_points :: tensor where
  "example_learned_points = \<lparr>dtype = Float64, shape = [2, 1], entries = [1 / 4, 3 / 4]\<rparr>"

definition example_train_svgp :: "nat svgp_call \<Rightarrow> nat fitted_svgp" where
  "example_train_svgp c =
     \<lparr>fitted_kernel = tr_kernel c + 10, fitted_likelihood_noise = 7,
      fitted_inducing_points =
        (if tr_is_fixed c then data_x (tr_induce_data c) else example_learned_points)\<rparr>"

definition example_flat_experiment_data :: experiment_data where
  "example_flat_experiment_data =
     example_experiment_data
       \<lparr>train := \<lparr>data_x = example_y, data_y = Some example_y, data_name = ''train''\<rparr>\<rparr>"

definition example_state :: state_dict where
  "example_state =
     [(''likelihood.noise_covar.raw_noise'', \<lparr>dtype = Float32, shape = [1], entries = [0]\<rparr>)]"

definition example_loaded_svgp :: "unit svGP" where
  "example_loaded_svgp =
     \<lparr>svgp_x_induce = \<lparr>dtype = Float64, shape = [2, 1], entries = [0, 1]\<rparr>,
      svgp_mean = ConstantMean, svgp_kernel = (), svgp_learn_inducing_locations = True,
      svgp_likelihood = GaussianLikelihood,
      svgp_state =
        [(''likelihood.noise_covar.raw_noise'',
          \<lparr>dtype = Float64, shape = [1], entries = [0]\<rparr>)]\<rparr>"

definition example_load_state_dict :: "state_dict \<Rightarrow> pyobj \<Rightarrow> error + state_dict" where
  "example_load_state_dict st loaded = Inr st"

definition example_model_files :: files where
  "example_model_files =
     [''data.pth'' \<mapsto> DataObj example_data,
      ''model.pth'' \<mapsto> Dict [(''model'', Dict []), (''losses'', Tensor example_y)]]"

definition example_velocity :: "real list list \<Rightarrow> real list list" where
  "example_velocity ps = [[1, 2], [0, 0]]"

definition example_svgp :: "unit fitted_svgp" where
  "example_svgp =
     \<lparr>fitted_kernel = (), fitted_likelihood_noise = 7, fitted_inducing_points = example_x\<rparr>"

definition example_new_kernel :: "nat \<Rightarrow> nat" where
  "example_new_kernel d = d"

definition example_population :: "real list list" where
  "example_population = [[5 / 2, 3], [1 / 2, 0]]"

section \<open>Reloading a saved flow\<close>

lemma load_projected_wasserstein_gradient_flow_result:
  assumes "load_projected_wasserstein_gradient_flow fs init model_path bk noise ed ind jit = Inr flow"
  shows "\<exists>cfg t. fs model_path = Some cfg \<and> getitem cfg ''particles'' = Inr (Tensor t)
           \<and> particles flow = to_double t \<and> observation_noise flow = noise"
  using assms
  by (auto simp: load_projected_wasserstein_gradient_flow_def torch_load_def Let_def
        ProjectedWassersteinGradientFlow_def
      split: option.splits sum.splits pyobj.splits)

lemma load_after_save:
  assumes "load_projected_wasserstein_gradient_flow (torch_save (pwgf_bundle m) path fs)
             init path bk noise ed ind jit = Inr flow"
  shows "particles flow = to_double (particles m) \<and> observation_noise flow = noise"
  using load_projected_wasserstein_gradient_flow_result[OF assms]
  by (auto simp: torch_save_def pwgf_bundle_def getitem_def)

text \<open>
  Whatever the trainer and the noise search are: the second run of the stage finds the
  checkpoint that the first run wrote, and the flow it loads has the saved particles and
  \<^verbatim>\<open>float(likelihood.noise)\<close> as its observation noise, not the saved one.
\<close>

lemma uci_pwgf_stage_second_run:
  assumes "\<not> path_exists fs path"
    and "uci_pwgf_stage trainer search init fs path k likelihood_noise ed induce cfg = Inr (m, fs')"
    and "uci_pwgf_stage trainer search init fs' path k likelihood_noise ed induce cfg = Inr (m', fs'')"
  shows "torch_load fs' path = Inr (pwgf_bundle m)
         \<and> particles m' = to_double (particles m)
         \<and> observation_noise m' = likelihood_noise"
proof -
  have s: "fs' = torch_save (pwgf_bundle m) path fs"
    using assms(1,2) by (auto simp: uci_pwgf_stage_def Let_def)
  then have e: "path_exists fs' path"
    by (simp add: path_exists_def torch_save_def)
  have l: "torch_load fs' path = Inr (pwgf_bundle m)"
    using s by (simp add: torch_load_def torch_save_def)
  have "load_projected_wasserstein_gradient_flow (torch_save (pwgf_bundle m) path fs) init path k
          likelihood_noise ed induce (cfg_jitter cfg) = Inr m'"
    using assms(3) e unfolding s by (auto simp: uci_pwgf_stage_def split: sum.splits)
  from load_after_save[OF this] l show ?thesis by simp
qed

text \<open>
  Claim C1. A flow that the UCI script saved and then reloads should have the particle
  matrix and the observation noise that were saved. It has the particles, but not the
  noise. First run, no checkpoint: the flow is trained with observation noise 1
  (\<^verbatim>\<open>float(likelihood.noise)\<close>), the noise search returns 2, and particles and noise 2 are
  saved. Second run, the checkpoint exists: the loaded flow has the saved particles and
  observation noise 1, the caller's argument, although the file holds 2.
\<close>

theorem uci_reloaded_flow_loses_saved_noise:
  "uci_pwgf_stage example_train example_noise_search example_particles Map.empty
       ''pwgf_model.pth'' () 1 example_experiment_data example_data example_config
     = Inr (example_flow 2, example_saved)
   \<and> torch_load example_saved ''pwgf_model.pth'' = Inr (pwgf_bundle (example_flow 2))
   \<and> uci_pwgf_stage example_train example_noise_search example_particles example_saved
       ''pwgf_model.pth'' () 1 example_experiment_data example_data example_config
     = Inr (example_flow 1, example_saved)
   \<and> particles (example_flow 1) = particles (example_flow 2)
   \<and> observation_noise (example_flow 1) = 1
   \<and> observation_noise (example_flow 2) = 2"
proof -
  have first: "uci_pwgf_stage example_train example_noise_search example_particles Map.empty
       ''pwgf_model.pth'' () 1 example_experiment_data example_data example_config
     = Inr (example_flow 2, example_saved)"
    by (simp add: uci_pwgf_stage_def path_exists_def Let_def example_train_def
          example_noise_search_def ProjectedWassersteinGradientFlow_def pwgf_call_of_def
          torch_save_def pwgf_bundle_def example_flow_def example_saved_def
          example_config_def example_experiment_data_def example_data_def)
  have saved: "torch_load example_saved ''pwgf_model.pth'' = Inr (pwgf_bundle (example_flow 2))"
    by (simp add: torch_load_def example_saved_def pwgf_bundle_def example_flow_def)
  have second: "uci_pwgf_stage example_train example_noise_search example_particles
       example_saved ''pwgf_model.pth'' () 1 example_experiment_data example_data
       example_config
     = Inr (example_flow 1, example_saved)"
    by (simp add: uci_pwgf_stage_def path_exists_def example_saved_def
          load_projected_wasserstein_gradient_flow_def torch_load_def getitem_def Let_def
          to_double_def shape_at_def GradientFlowKernel_init_def number_of_rows_def
          ProjectedWassersteinGradientFlow_def example_flow_def example_particles_def
          example_config_def example_experiment_data_def example_data_def example_x_def)
  show ?thesis
    using first saved second by (simp add: example_flow_def)
qed

section \<open>Element types after loading\<close>

lemma svGP_double_dtypes:
  "dtype (svgp_x_induce (svGP_double m)) = Float64
   \<and> (\<forall>t\<in>snd ` set (svgp_state (svGP_double m)). dtype t = Float64)"
  by (auto simp: svGP_double_def to_double_def)

text \<open>
  Claim C9. \<^verbatim>\<open>load_ard_exact_gp_model\<close> returns a model built from \<^verbatim>\<open>data.x\<close> and
  \<^verbatim>\<open>data.y\<close> exactly as they were loaded, element type included: the results of the two
  \<^verbatim>\<open>.to(torch.double)\<close> expressions are dropped. \<^verbatim>\<open>load_svgp\<close> returns a model whose
  inducing inputs and state tensors are all double, and
  \<^verbatim>\<open>load_projected_wasserstein_gradient_flow\<close> returns a flow whose particles are double.
\<close>

theorem load_ard_exact_gp_model_keeps_dtype:
  "(load_ard_exact_gp_model fs st0 lsd model_path data_path = Inr (model, losses) \<longrightarrow>
      (\<exists>d y. torch_load fs data_path = Inr (DataObj d) \<and> data_y d = Some y
             \<and> gp_x model = data_x d \<and> gp_y model = y))
   \<and> (load_svgp sfs sst0 slsd svgp_path x_ind mn k learn = Inr (smodel, slosses) \<longrightarrow>
        dtype (svgp_x_induce smodel) = Float64
        \<and> (\<forall>t\<in>snd ` set (svgp_state smodel). dtype t = Float64))
   \<and> (load_projected_wasserstein_gradient_flow pfs init pwgf_path bk noise ed ind jit = Inr flow
        \<longrightarrow> dtype (particles flow) = Float64)"
proof (intro conjI impI)
  assume "load_ard_exact_gp_model fs st0 lsd model_path data_path = Inr (model, losses)"
  then show "\<exists>d y. torch_load fs data_path = Inr (DataObj d) \<and> data_y d = Some y
               \<and> gp_x model = data_x d \<and> gp_y model = y"
    by (auto simp: load_ard_exact_gp_model_def Let_def
        split: sum.splits pyobj.splits option.splits)
next
  assume a: "load_svgp sfs sst0 slsd svgp_path x_ind mn k learn = Inr (smodel, slosses)"
  then obtain m where "smodel = svGP_double m"
    by (auto simp: load_svgp_def Let_def split: sum.splits)
  then show "dtype (svgp_x_induce smodel) = Float64"
    and "\<forall>t\<in>snd ` set (svgp_state smodel). dtype t = Float64"
    using svGP_double_dtypes[of m] by simp_all
next
  assume "load_projected_wasserstein_gradient_flow pfs init pwgf_path bk noise ed ind jit = Inr flow"
  from load_projected_wasserstein_gradient_flow_result[OF this]
  show "dtype (particles flow) = Float64"
    by (auto simp: to_double_def)
qed

theorem load_ard_exact_gp_model_keeps_dtype_witness:
  "load_ard_exact_gp_model example_model_files example_state example_load_state_dict
       ''model.pth'' ''data.pth''
     = Inr (\<lparr>gp_x = example_x, gp_y = example_y, gp_likelihood = GaussianLikelihood,
             gp_mean = ConstantMean, gp_kernel = ScaleKernel (RBFKernel 1),
             gp_state = example_state\<rparr>, Tensor example_y)
   \<and> dtype example_x = Float32 \<and> dtype example_y = Float32
   \<and> load_svgp example_model_files example_state example_load_state_dict ''model.pth''
       example_x ConstantMean () True
     = Inr (example_loaded_svgp,
            Tensor example_y)
   \<and> load_projected_wasserstein_gradient_flow example_saved example_particles
       ''pwgf_model.pth'' () 1 example_experiment_data example_data 0
     = Inr (example_flow 1)
   \<and> (\<exists>d y. torch_load example_model_files ''data.pth'' = Inr (DataObj d) \<and> data_y d = Some y
          \<and> example_x = data_x d \<and> example_y = y)
   \<and> dtype (svgp_x_induce example_loaded_svgp) = Float64
   \<and> map (\<lambda>(n, t). dtype t) (svgp_state example_loaded_svgp) = [Float64]
   \<and> dtype (particles (example_flow 1 :: unit pwgf)) = Float64"
proof -
  let ?gp = "\<lparr>gp_x = example_x, gp_y = example_y, gp_likelihood = GaussianLikelihood,
             gp_mean = ConstantMean, gp_kernel = ScaleKernel (RBFKernel 1),
             gp_state = example_state\<rparr>"
  have a: "load_ard_exact_gp_model example_model_files example_state example_load_state_dict
       ''model.pth'' ''data.pth'' = Inr (?gp, Tensor example_y)"
    by (simp add: load_ard_exact_gp_model_def torch_load_def example_model_files_def
          example_data_def Let_def shape_at_def example_x_def getitem_def
          example_load_state_dict_def)
  have b: "load_svgp example_model_files example_state example_load_state_dict ''model.pth''
       example_x ConstantMean () True = Inr (example_loaded_svgp, Tensor example_y)"
    by (simp add: load_svgp_def torch_load_def example_model_files_def Let_def getitem_def
          example_load_state_dict_def svGP_double_def to_double_def example_loaded_svgp_def
          example_x_def example_state_def)
  have c: "load_projected_wasserstein_gradient_flow example_saved example_particles
       ''pwgf_model.pth'' () 1 example_experiment_data example_data 0 = Inr (example_flow 1)"
    by (simp add: example_saved_def
          load_projected_wasserstein_gradient_flow_def torch_load_def getitem_def Let_def
          to_double_def shape_at_def GradientFlowKernel_init_def number_of_rows_def
          ProjectedWassersteinGradientFlow_def example_flow_def example_particles_def
          example_experiment_data_def example_data_def example_x_def)
  have d: "dtype example_x = Float32 \<and> dtype example_y = Float32"
    by (simp add: example_x_def example_y_def)
  note t = load_ard_exact_gp_model_keeps_dtype[of example_model_files example_state
      example_load_state_dict "''model.pth''" "''data.pth''" ?gp "Tensor example_y"
      example_model_files example_state example_load_state_dict "''model.pth''"
      example_x ConstantMean "()" True example_loaded_svgp "Tensor example_y"
      example_saved example_particles "''pwgf_model.pth''" "()" 1 example_experiment_data
      example_data 0 "example_flow 1"]
  show ?thesis
    using t a b c d by (simp add: example_loaded_svgp_def)
qed

section \<open>The observation noise of the flow runs\<close>

lemma curves_pwgf_calls_result:
  assumes "shape_at (data_x (train ed)) 1 = Inr d"
  shows "curves_pwgf_calls train_svgp new_kernel mk mn scheme induce ed cfg svcfg
     = Inr (pwgf_call_of ''exact-gp'' mk ed induce cfg (if scheme = ''exact'' then mn else 1),
            pwgf_call_of ''svgp''
              (fitted_kernel
                 (train_svgp
                    \<lparr>tr_experiment_data = ed, tr_induce_data = induce, tr_mean = ConstantMean,
                     tr_kernel = new_kernel d, tr_config = svcfg, tr_is_fixed = False\<rparr>))
              ed
              \<lparr>data_x = fitted_inducing_points
                  (train_svgp
                     \<lparr>tr_experiment_data = ed, tr_induce_data = induce,
                      tr_mean = ConstantMean, tr_kernel = new_kernel d, tr_config = svcfg,
                      tr_is_fixed = False\<rparr>),
               data_y = None, data_name = []\<rparr>
              cfg (if scheme = ''exact'' then mn else 1))"
  using assms by (simp add: curves_pwgf_calls_def Let_def)

lemma curves_pwgf_calls_error:
  assumes "shape_at (data_x (train ed)) 1 = Inl e"
  shows "curves_pwgf_calls train_svgp new_kernel mk mn scheme induce ed cfg svcfg = Inl e"
  using assms by (simp add: curves_pwgf_calls_def Let_def)

text \<open>
  Claim C10. In the curves script both calls of
  \<^verbatim>\<open>projected_wasserstein_gradient_flow\<close> are made whenever the training inputs are a
  matrix (they are: the script reshapes them to one column), whatever \<^verbatim>\<open>gp_scheme\<close> is.
  The first, named \<^verbatim>\<open>"exact-gp"\<close>, gets the first model's kernel and the induce data;
  the second, named \<^verbatim>\<open>"svgp"\<close>, gets the kernel and the inducing points of the svGP
  trained on a new kernel with free inducing locations. Both get the same observation
  noise: the first model's likelihood noise when \<^verbatim>\<open>gp_scheme\<close> is \<^verbatim>\<open>"exact"\<close>, and 1
  otherwise. The likelihood noise of the trained svGP is not used: changing it changes
  neither call. The UCI script passes \<^verbatim>\<open>svgp_model.likelihood.noise\<close> to its svGP-seeded
  flow, when it trains it and when it loads it.
\<close>

theorem curves_flow_runs_share_observation_noise:
  "(shape_at (data_x (train ed)) 1 = Inr d \<longrightarrow>
      curves_pwgf_calls train_svgp new_kernel mk mn scheme induce ed cfg svcfg
      = Inr (pwgf_call_of ''exact-gp'' mk ed induce cfg (if scheme = ''exact'' then mn else 1),
             pwgf_call_of ''svgp''
               (fitted_kernel
                  (train_svgp
                     \<lparr>tr_experiment_data = ed, tr_induce_data = induce,
                      tr_mean = ConstantMean, tr_kernel = new_kernel d, tr_config = svcfg,
                      tr_is_fixed = False\<rparr>))
               ed
               \<lparr>data_x = fitted_inducing_points
                   (train_svgp
                      \<lparr>tr_experiment_data = ed, tr_induce_data = induce,
                       tr_mean = ConstantMean, tr_kernel = new_kernel d, tr_config = svcfg,
                       tr_is_fixed = False\<rparr>),
                data_y = None, data_name = []\<rparr>
               cfg (if scheme = ''exact'' then mn else 1)))
   \<and> (shape_at (data_x (train ed)) 1 = Inl e \<longrightarrow>
        curves_pwgf_calls train_svgp new_kernel mk mn scheme induce ed cfg svcfg = Inl e)
   \<and> (curves_pwgf_calls train_svgp new_kernel mk mn scheme induce ed cfg svcfg = Inr (c1, c2) \<longrightarrow>
        arg_particle_name c1 = ''exact-gp'' \<and> arg_particle_name c2 = ''svgp''
        \<and> arg_kernel c1 = mk \<and> arg_induce_data c1 = induce
        \<and> arg_kernel c2
            = fitted_kernel
                (train_svgp
                   \<lparr>tr_experiment_data = ed, tr_induce_data = induce, tr_mean = ConstantMean,
                    tr_kernel = new_kernel (shape (data_x (train ed)) ! 1), tr_config = svcfg,
                    tr_is_fixed = False\<rparr>)
        \<and> data_x (arg_induce_data c2)
            = fitted_inducing_points
                (train_svgp
                   \<lparr>tr_experiment_data = ed, tr_induce_data = induce, tr_mean = ConstantMean,
                    tr_kernel = new_kernel (shape (data_x (train ed)) ! 1), tr_config = svcfg,
                    tr_is_fixed = False\<rparr>)
        \<and> arg_observation_noise c1 = (if scheme = ''exact'' then mn else 1)
        \<and> arg_observation_noise c2 = arg_observation_noise c1)
   \<and> curves_pwgf_calls (\<lambda>c. (train_svgp c)\<lparr>fitted_likelihood_noise := other\<rparr>) new_kernel
         mk mn scheme induce ed cfg svcfg
       = curves_pwgf_calls train_svgp new_kernel mk mn scheme induce ed cfg svcfg
   \<and> arg_observation_noise (uci_svgp_pwgf_call svgp_model uci_ed uci_cfg)
       = fitted_likelihood_noise svgp_model
   \<and> (\<not> path_exists fs path \<longrightarrow>
        uci_svgp_pwgf_stage trainer init fs path svgp_model uci_ed uci_cfg
        = Inr (trainer (uci_svgp_pwgf_call svgp_model uci_ed uci_cfg),
               torch_save (pwgf_bundle (trainer (uci_svgp_pwgf_call svgp_model uci_ed uci_cfg)))
                 path fs))
   \<and> (path_exists fs path
        \<and> uci_svgp_pwgf_stage trainer init fs path svgp_model uci_ed uci_cfg = Inr (m, fs')
        \<longrightarrow> observation_noise m = fitted_likelihood_noise svgp_model)"
proof (intro conjI impI)
  assume "shape_at (data_x (train ed)) 1 = Inr d"
  then show "curves_pwgf_calls train_svgp new_kernel mk mn scheme induce ed cfg svcfg
      = Inr (pwgf_call_of ''exact-gp'' mk ed induce cfg (if scheme = ''exact'' then mn else 1),
             pwgf_call_of ''svgp''
               (fitted_kernel
                  (train_svgp
                     \<lparr>tr_experiment_data = ed, tr_induce_data = induce,
                      tr_mean = ConstantMean, tr_kernel = new_kernel d, tr_config = svcfg,
                      tr_is_fixed = False\<rparr>))
               ed
               \<lparr>data_x = fitted_inducing_points
                   (train_svgp
                      \<lparr>tr_experiment_data = ed, tr_induce_data = induce,
                       tr_mean = ConstantMean, tr_kernel = new_kernel d, tr_config = svcfg,
                       tr_is_fixed = False\<rparr>),
                data_y = None, data_name = []\<rparr>
               cfg (if scheme = ''exact'' then mn else 1))"
    by (rule curves_pwgf_calls_result)
next
  assume "shape_at (data_x (train ed)) 1 = Inl e"
  then show "curves_pwgf_calls train_svgp new_kernel mk mn scheme induce ed cfg svcfg = Inl e"
    by (rule curves_pwgf_calls_error)
next
  assume a: "curves_pwgf_calls train_svgp new_kernel mk mn scheme induce ed cfg svcfg = Inr (c1, c2)"
  then obtain d where d: "shape_at (data_x (train ed)) 1 = Inr d"
    by (cases "shape_at (data_x (train ed)) 1") (simp_all add: curves_pwgf_calls_error)
  then have n: "d = shape (data_x (train ed)) ! 1"
    by (auto simp: shape_at_def split: if_splits)
  note r = a[unfolded curves_pwgf_calls_result[OF d, of train_svgp new_kernel mk mn scheme induce cfg svcfg]]
  show "arg_particle_name c1 = ''exact-gp''"
    using r by (auto simp: pwgf_call_of_def)
  show "arg_particle_name c2 = ''svgp''"
    using r by (auto simp: pwgf_call_of_def)
  show "arg_kernel c1 = mk"
    using r by (auto simp: pwgf_call_of_def)
  show "arg_induce_data c1 = induce"
    using r by (auto simp: pwgf_call_of_def)
  show "arg_kernel c2
            = fitted_kernel
                (train_svgp
                   \<lparr>tr_experiment_data = ed, tr_induce_data = induce, tr_mean = ConstantMean,
                    tr_kernel = new_kernel (shape (data_x (train ed)) ! 1), tr_config = svcfg,
                    tr_is_fixed = False\<rparr>)"
    using r n by (auto simp: pwgf_call_of_def)
  show "data_x (arg_induce_data c2)
            = fitted_inducing_points
                (train_svgp
                   \<lparr>tr_experiment_data = ed, tr_induce_data = induce, tr_mean = ConstantMean,
                    tr_kernel = new_kernel (shape (data_x (train ed)) ! 1), tr_config = svcfg,
                    tr_is_fixed = False\<rparr>)"
    using r n by (auto simp: pwgf_call_of_def)
  show "arg_observation_noise c1 = (if scheme = ''exact'' then mn else 1)"
    using r by (auto simp: pwgf_call_of_def)
  show "arg_observation_noise c2 = arg_observation_noise c1"
    using r by (auto simp: pwgf_call_of_def)
next
  show "curves_pwgf_calls (\<lambda>c. (train_svgp c)\<lparr>fitted_likelihood_noise := other\<rparr>) new_kernel
         mk mn scheme induce ed cfg svcfg
       = curves_pwgf_calls train_svgp new_kernel mk mn scheme induce ed cfg svcfg"
    by (simp add: curves_pwgf_calls_def Let_def split: sum.splits)
next
  show "arg_observation_noise (uci_svgp_pwgf_call svgp_model uci_ed uci_cfg)
       = fitted_likelihood_noise svgp_model"
    by (simp add: uci_svgp_pwgf_call_def pwgf_call_of_def)
next
  assume "\<not> path_exists fs path"
  then show "uci_svgp_pwgf_stage trainer init fs path svgp_model uci_ed uci_cfg
        = Inr (trainer (uci_svgp_pwgf_call svgp_model uci_ed uci_cfg),
               torch_save (pwgf_bundle (trainer (uci_svgp_pwgf_call svgp_model uci_ed uci_cfg)))
                 path fs)"
    by (simp add: uci_svgp_pwgf_stage_def Let_def)
next
  assume "path_exists fs path
        \<and> uci_svgp_pwgf_stage trainer init fs path svgp_model uci_ed uci_cfg = Inr (m, fs')"
  then have "load_projected_wasserstein_gradient_flow fs init path (fitted_kernel svgp_model)
       (fitted_likelihood_noise svgp_model) uci_ed
       \<lparr>data_x = fitted_inducing_points svgp_model, data_y = None, data_name = []\<rparr>
       (cfg_jitter uci_cfg) = Inr m"
    by (auto simp: uci_svgp_pwgf_stage_def split: sum.splits)
  from load_projected_wasserstein_gradient_flow_result[OF this]
  show "observation_noise m = fitted_likelihood_noise svgp_model"
    by auto
qed

theorem curves_flow_runs_share_observation_noise_witness:
  "shape_at (data_x (train example_experiment_data)) 1 = Inr 1
   \<and> curves_pwgf_calls example_train_svgp example_new_kernel 5 3 ''exact'' example_data
       example_experiment_data example_config example_svgp_config
     = Inr (pwgf_call_of ''exact-gp'' 5 example_experiment_data example_data example_config 3,
            pwgf_call_of ''svgp'' 11 example_experiment_data
              \<lparr>data_x = example_learned_points, data_y = None, data_name = []\<rparr>
              example_config 3)
   \<and> curves_pwgf_calls example_train_svgp example_new_kernel 5 3 ''subsample'' example_data
       example_experiment_data example_config example_svgp_config
     = Inr (pwgf_call_of ''exact-gp'' 5 example_experiment_data example_data example_config 1,
            pwgf_call_of ''svgp'' 11 example_experiment_data
              \<lparr>data_x = example_learned_points, data_y = None, data_name = []\<rparr>
              example_config 1)
   \<and> arg_observation_noise
        (pwgf_call_of ''exact-gp'' (5::nat) example_experiment_data example_data example_config 3)
       = 3
   \<and> arg_observation_noise
        (pwgf_call_of ''svgp'' (11::nat) example_experiment_data
           \<lparr>data_x = example_learned_points, data_y = None, data_name = []\<rparr> example_config 1)
       = 1
   \<and> arg_kernel
        (pwgf_call_of ''svgp'' (11::nat) example_experiment_data
           \<lparr>data_x = example_learned_points, data_y = None, data_name = []\<rparr> example_config 3)
       = 11
   \<and> shape_at (data_x (train example_flat_experiment_data)) 1 = Inl IndexError
   \<and> curves_pwgf_calls example_train_svgp example_new_kernel 5 3 ''exact'' example_data
       example_flat_experiment_data example_config example_svgp_config
     = Inl IndexError
   \<and> curves_pwgf_calls (\<lambda>c. (example_train_svgp c)\<lparr>fitted_likelihood_noise := 100\<rparr>)
         example_new_kernel 5 3 ''exact'' example_data example_experiment_data example_config
         example_svgp_config
       = curves_pwgf_calls example_train_svgp example_new_kernel 5 3 ''exact'' example_data
           example_experiment_data example_config example_svgp_config
   \<and> fitted_likelihood_noise example_svgp = 7
   \<and> arg_observation_noise
        (uci_svgp_pwgf_call example_svgp example_experiment_data example_config) = 7
   \<and> \<not> path_exists Map.empty ''svgp_pwgf_model.pth''
   \<and> uci_svgp_pwgf_stage example_train example_particles Map.empty ''svgp_pwgf_model.pth''
        example_svgp example_experiment_data example_config
      = Inr ((example_flow 7)\<lparr>y_induce := None\<rparr>,
             [''svgp_pwgf_model.pth'' \<mapsto>
                Dict [(''particles'', Tensor example_particles),
                      (''observation_noise'', Number 7)]])
   \<and> path_exists example_saved ''pwgf_model.pth''
   \<and> uci_svgp_pwgf_stage example_train example_particles example_saved ''pwgf_model.pth''
        example_svgp example_experiment_data example_config
      = Inr ((example_flow 7)\<lparr>y_induce := None\<rparr>, example_saved)
   \<and> observation_noise ((example_flow 7)\<lparr>y_induce := None\<rparr>) = 7"
proof -
  let ?m = "(example_flow 7)\<lparr>y_induce := None\<rparr>"
  have matrix: "shape_at (data_x (train example_experiment_data)) 1 = Inr 1"
    by (simp add: shape_at_def example_experiment_data_def example_data_def example_x_def)
  have flat: "shape_at (data_x (train example_flat_experiment_data)) 1 = Inl IndexError"
    by (simp add: shape_at_def example_flat_experiment_data_def example_y_def)
  note exact = curves_flow_runs_share_observation_noise[where train_svgp = example_train_svgp
      and new_kernel = example_new_kernel and mk = 5 and mn = 3 and scheme = "''exact''"
      and induce = example_data and ed = example_experiment_data and cfg = example_config
      and svcfg = example_svgp_config and d = 1 and other = 100
      and svgp_model = example_svgp and uci_ed = example_experiment_data
      and uci_cfg = example_config and trainer = example_train and init = example_particles
      and fs = Map.empty and path = "''svgp_pwgf_model.pth''"]
  note other = curves_flow_runs_share_observation_noise[where train_svgp = example_train_svgp
      and new_kernel = example_new_kernel and mk = 5 and mn = 3 and scheme = "''subsample''"
      and induce = example_data and ed = example_experiment_data and cfg = example_config
      and svcfg = example_svgp_config and d = 1]
  note failed = curves_flow_runs_share_observation_noise[where train_svgp = example_train_svgp
      and new_kernel = example_new_kernel and mk = 5 and mn = 3 and scheme = "''exact''"
      and induce = example_data and ed = example_flat_experiment_data and cfg = example_config
      and svcfg = example_svgp_config and e = IndexError]
  have absent: "\<not> path_exists Map.empty ''svgp_pwgf_model.pth''"
    by (simp add: path_exists_def)
  have present: "path_exists example_saved ''pwgf_model.pth''"
    by (simp add: path_exists_def example_saved_def)
  have trained: "example_train (uci_svgp_pwgf_call example_svgp example_experiment_data
       example_config) = ?m"
    by (simp add: example_train_def uci_svgp_pwgf_call_def pwgf_call_of_def example_svgp_def
          ProjectedWassersteinGradientFlow_def example_flow_def example_config_def
          example_experiment_data_def example_data_def)
  have loaded: "uci_svgp_pwgf_stage example_train example_particles example_saved
       ''pwgf_model.pth'' example_svgp example_experiment_data example_config
     = Inr (?m, example_saved)"
    by (simp add: uci_svgp_pwgf_stage_def path_exists_def example_saved_def example_svgp_def
          load_projected_wasserstein_gradient_flow_def torch_load_def getitem_def Let_def
          to_double_def shape_at_def GradientFlowKernel_init_def number_of_rows_def
          ProjectedWassersteinGradientFlow_def example_flow_def example_particles_def
          example_config_def example_experiment_data_def example_data_def example_x_def)
  note uci = curves_flow_runs_share_observation_noise[where svgp_model = example_svgp
      and uci_ed = example_experiment_data and uci_cfg = example_config
      and trainer = example_train and init = example_particles and fs = example_saved
      and path = "''pwgf_model.pth''" and m = ?m and fs' = example_saved]
  have noise: "fitted_likelihood_noise example_svgp = 7"
    by (simp add: example_svgp_def)
  have calls_exact: "curves_pwgf_calls example_train_svgp example_new_kernel 5 3 ''exact''
       example_data example_experiment_data example_config example_svgp_config
     = Inr (pwgf_call_of ''exact-gp'' 5 example_experiment_data example_data example_config 3,
            pwgf_call_of ''svgp'' 11 example_experiment_data
              \<lparr>data_x = example_learned_points, data_y = None, data_name = []\<rparr>
              example_config 3)"
    using exact[THEN conjunct1, rule_format, OF matrix]
    by (simp add: example_train_svgp_def example_new_kernel_def)
  have calls_other: "curves_pwgf_calls example_train_svgp example_new_kernel 5 3 ''subsample''
       example_data example_experiment_data example_config example_svgp_config
     = Inr (pwgf_call_of ''exact-gp'' 5 example_experiment_data example_data example_config 1,
            pwgf_call_of ''svgp'' 11 example_experiment_data
              \<lparr>data_x = example_learned_points, data_y = None, data_name = []\<rparr>
              example_config 1)"
    using other[THEN conjunct1, rule_format, OF matrix]
    by (simp add: example_train_svgp_def example_new_kernel_def)
  have calls_failed: "curves_pwgf_calls example_train_svgp example_new_kernel 5 3 ''exact''
       example_data example_flat_experiment_data example_config example_svgp_config
     = Inl IndexError"
    by (rule failed[THEN conjunct2, THEN conjunct1, rule_format, OF flat])
  have same: "curves_pwgf_calls (\<lambda>c. (example_train_svgp c)\<lparr>fitted_likelihood_noise := 100\<rparr>)
         example_new_kernel 5 3 ''exact'' example_data example_experiment_data example_config
         example_svgp_config
       = curves_pwgf_calls example_train_svgp example_new_kernel 5 3 ''exact'' example_data
           example_experiment_data example_config example_svgp_config"
    by (rule exact[THEN conjunct2, THEN conjunct2, THEN conjunct2, THEN conjunct1])
  have uci_noise: "arg_observation_noise
        (uci_svgp_pwgf_call example_svgp example_experiment_data example_config) = 7"
    using exact[THEN conjunct2, THEN conjunct2, THEN conjunct2, THEN conjunct2, THEN conjunct1]
      noise
    by (simp only:)
  have uci_train: "uci_svgp_pwgf_stage example_train example_particles Map.empty
        ''svgp_pwgf_model.pth'' example_svgp example_experiment_data example_config
      = Inr (?m, [''svgp_pwgf_model.pth'' \<mapsto>
                Dict [(''particles'', Tensor example_particles),
                      (''observation_noise'', Number 7)]])"
    using exact[THEN conjunct2, THEN conjunct2, THEN conjunct2, THEN conjunct2, THEN conjunct2,
        THEN conjunct1, rule_format, OF absent]
    by (simp add: trained torch_save_def pwgf_bundle_def example_flow_def)
  have loaded_noise: "observation_noise ?m = 7"
    using uci[THEN conjunct2, THEN conjunct2, THEN conjunct2, THEN conjunct2, THEN conjunct2,
        THEN conjunct2, rule_format, OF conjI[OF present loaded]] noise
    by (simp only:)
  have noise_first: "arg_observation_noise
        (pwgf_call_of ''exact-gp'' (5::nat) example_experiment_data example_data example_config 3)
       = 3"
    using exact[THEN conjunct2, THEN conjunct2, THEN conjunct1, rule_format, OF calls_exact]
    by simp
  have noise_second: "arg_observation_noise
        (pwgf_call_of ''svgp'' (11::nat) example_experiment_data
           \<lparr>data_x = example_learned_points, data_y = None, data_name = []\<rparr> example_config 1)
       = 1"
    using other[THEN conjunct2, THEN conjunct2, THEN conjunct1, rule_format, OF calls_other]
    by simp
  have kernel_second: "arg_kernel
        (pwgf_call_of ''svgp'' (11::nat) example_experiment_data
           \<lparr>data_x = example_learned_points, data_y = None, data_name = []\<rparr> example_config 3)
       = 11"
    by (simp add: pwgf_call_of_def)
  show ?thesis
    by (intro conjI) (fact matrix calls_exact calls_other noise_first noise_second
        kernel_second flat calls_failed same noise uci_noise absent uci_train present loaded
        loaded_noise)+
qed

section \<open>Projection\<close>

lemma sum_squares_nonneg: "0 \<le> (\<Sum>a\<leftarrow>v. (a::real)\<^sup>2)"
  by (induction v) auto

lemma norm2_squared: "(norm2 v)\<^sup>2 = (\<Sum>a\<leftarrow>v. a\<^sup>2)"
  by (simp add: norm2_def sum_squares_nonneg)

lemma sum_squares_scale: "(\<Sum>a\<leftarrow>map (\<lambda>a. a * c) v. a\<^sup>2) = c\<^sup>2 * (\<Sum>a\<leftarrow>v. (a::real)\<^sup>2)"
  by (induction v) (auto simp: power_mult_distrib algebra_simps)

lemma norm2_scale: "norm2 (map (\<lambda>a. a * c) v) = \<bar>c\<bar> * norm2 v"
  unfolding norm2_def sum_squares_scale by (simp add: real_sqrt_mult)

lemma dot_scale_self: "dot (map (\<lambda>a. a * c) v) v = c * (norm2 v)\<^sup>2"
proof -
  have "dot (map (\<lambda>a. a * c) v) v = c * (\<Sum>a\<leftarrow>v. a\<^sup>2)"
    unfolding dot_def by (induction v) (auto simp: power2_eq_square algebra_simps)
  then show ?thesis by (simp add: norm2_squared)
qed

lemma project_particle_clipped:
  assumes "0 < B" "B < norm2 v"
  shows "norm2 (project_particle B v) = B \<and> cosine_similarity (project_particle B v) v = 1"
proof -
  have n: "0 < norm2 v" using assms by linarith
  let ?c = "B / norm2 v"
  have c: "0 < ?c" using assms n by simp
  have p: "project_particle B v = map (\<lambda>a. a * ?c) v"
    using assms by (simp add: project_particle_def)
  have ns: "norm2 (map (\<lambda>a. a * ?c) v) = \<bar>?c\<bar> * norm2 v"
    by (rule norm2_scale)
  have nb: "\<bar>?c\<bar> * norm2 v = B"
    using c n assms(1) by simp
  have len: "norm2 (project_particle B v) = B"
    unfolding p using ns nb by (simp only:)
  have ds: "dot (map (\<lambda>a. a * ?c) v) v = ?c * (norm2 v)\<^sup>2"
    by (rule dot_scale_self)
  have "cosine_similarity (project_particle B v) v = (?c * (norm2 v)\<^sup>2) / (B * norm2 v)"
    unfolding p cosine_similarity_def using ds ns nb by (simp only:)
  also have "\<dots> = 1"
    using n assms by (simp add: power2_eq_square)
  finally show ?thesis using len by simp
qed

lemma project_particle_kept: "norm2 v \<le> B \<Longrightarrow> project_particle B v = v"
  by (simp add: project_particle_def)

lemma sqrt_25: "sqrt 25 = 5"
proof -
  have "sqrt 25 = sqrt (5\<^sup>2)" by simp
  then show ?thesis by (simp only: real_sqrt_abs abs_numeral)
qed

lemma norm2_3_4: "norm2 [3, 4] = 5"
  by (simp add: norm2_def sqrt_25)

text \<open>
  Claim C7. With a positive \<^verbatim>\<open>max_particle_magnitude\<close>, after the projection of a flow
  step every particle whose norm, after the move, exceeded the bound has norm exactly
  the bound and cosine similarity 1 to the particle before the projection, and every
  particle whose norm did not exceed the bound is the particle before the projection.
\<close>

theorem flow_step_projection:
  assumes "0 < max_particle_magnitude"
  shows "let moved = move_particles learning_rate ps (velocity ps);
             after = flow_step velocity learning_rate max_particle_magnitude ps
         in length after = length moved \<and>
            (\<forall>i<length moved.
               (max_particle_magnitude < norm2 (moved ! i) \<longrightarrow>
                  norm2 (after ! i) = max_particle_magnitude
                  \<and> cosine_similarity (after ! i) (moved ! i) = 1) \<and>
               (norm2 (moved ! i) \<le> max_particle_magnitude \<longrightarrow> after ! i = moved ! i))"
  using assms
  by (simp add: Let_def flow_step_def project_particle_clipped project_particle_kept)

theorem flow_step_projection_witness:
  "(0::real) < 1
   \<and> move_particles (1 / 2) example_population (example_velocity example_population)
       = [[3, 4], [1 / 2, 0]]
   \<and> flow_step example_velocity (1 / 2) 1 example_population = [[3 / 5, 4 / 5], [1 / 2, 0]]
   \<and> norm2 [3, 4] = 5 \<and> norm2 [3 / 5, 4 / 5] = 1
   \<and> cosine_similarity [3 / 5, 4 / 5] [3, 4] = 1
   \<and> norm2 [1 / 2, 0] = 1 / 2"
proof -
  have moved: "move_particles (1 / 2) example_population (example_velocity example_population)
       = [[3, 4], [1 / 2, 0]]"
    by (simp add: move_particles_def example_population_def example_velocity_def)
  have half: "norm2 [1 / 2, 0] = 1 / 2"
    by (simp add: norm2_def real_sqrt_divide power_divide)
  have after: "flow_step example_velocity (1 / 2) 1 example_population
       = [[3 / 5, 4 / 5], [1 / 2, 0]]"
    by (simp add: flow_step_def moved project_particle_def norm2_3_4 half)
  note t = flow_step_projection[of 1 "1 / 2" example_population example_velocity]
  have "norm2 [3 / 5, 4 / 5] = 1 \<and> cosine_similarity [3 / 5, 4 / 5] [3, 4] = 1"
    using t by (simp add: moved after norm2_3_4 Let_def All_less_Suc)
  then show ?thesis
    using moved after half norm2_3_4 by simp
qed

end
